theory Spec2Isabelle
  imports Complex_Main "HOL-Library.Word" "HOL-Library.Sublist"
begin

section \<open>The values the summarizer handles\<close>

text \<open>
  The code under verification is \<^verbatim>\<open>src/agents/context-summarizer.ts\<close>. TypeScript's types
  are erased when it runs, and the code itself inspects its inputs with \<^verbatim>\<open>typeof\<close>,
  \<^verbatim>\<open>Array.isArray\<close>, \<^verbatim>\<open>instanceof Date\<close> and \<^verbatim>\<open>in\<close>, so the model works on JavaScript values.

  A JavaScript string is a sequence of UTF-16 code units and \<^verbatim>\<open>.length\<close> counts them.
\<close>

type_synonym jsstring = "16 word list"

definition js_str :: "string \<Rightarrow> jsstring" where
  "js_str s = map (\<lambda>c. of_nat (of_char c)) s"

text \<open>
  Numbers. \<open>Finite q\<close> stands for the double whose value is the rational \<open>q\<close>; every
  double has such a value, and what is proved of all rationals holds of the doubles.
\<close>

datatype jsnum = Finite rat | NaN | PosInfinity | NegInfinity

text \<open>
  Data: \<^verbatim>\<open>undefined\<close>, \<^verbatim>\<open>null\<close>, booleans, numbers, strings, arrays and plain objects, that is
  what \<^verbatim>\<open>JSON.parse\<close> returns and what is built from such values in memory. An object is
  the list of its own properties, read with \<open>map_of\<close>; its prototype is
  \<^verbatim>\<open>Object.prototype\<close>, an array's is \<^verbatim>\<open>Array.prototype\<close>. Functions, symbols, getters and
  proxies are outside the model.
\<close>

datatype jsval =
    JUndefined
  | JNull
  | JBool bool
  | JNum jsnum
  | JStr jsstring
  | JArr "jsval list"
  | JObj "(jsstring \<times> jsval) list"

text \<open>
  A \<^verbatim>\<open>Date\<close> instance holds a time value: milliseconds since the epoch, or \<^verbatim>\<open>NaN\<close>
  (here \<open>None\<close>) for an invalid date.
\<close>

datatype date = Date (getTime: "int option")

text \<open>
  A message (\<^verbatim>\<open>AppMessage\<close>) is an object, so that \<^verbatim>\<open>msg?.content\<close> is \<^verbatim>\<open>msg.content\<close>.
  Each of its properties holds data or a \<^verbatim>\<open>Date\<close> instance; dates nested deeper inside the
  data are outside the model.
\<close>

datatype field = Data jsval | DateObj date

type_synonym message = "(jsstring \<times> field) list"

datatype js_error = TypeError

text \<open>Reading a property of a message: \<^verbatim>\<open>undefined\<close> when the message does not have it.\<close>

definition msg_get :: "message \<Rightarrow> jsstring \<Rightarrow> field" where
  "msg_get msg k = (case map_of msg k of None \<Rightarrow> Data JUndefined | Some f \<Rightarrow> f)"

text \<open>\<^verbatim>\<open>a ?? b\<close>: the right operand replaces \<^verbatim>\<open>null\<close> and \<^verbatim>\<open>undefined\<close> only.\<close>

fun nullish :: "jsval \<Rightarrow> bool" where
  "nullish JUndefined = True"
| "nullish JNull = True"
| "nullish _ = False"

definition coalesce :: "jsval \<Rightarrow> jsval \<Rightarrow> jsval" where
  "coalesce a b = (if nullish a then b else a)"

subsection \<open>The surroundings\<close>

text \<open>
  What the code takes from its surroundings:
  \<^item> \<open>SESSIONS_DIR\<close>: the sessions directory, as what the file system holds under each
    file name joined to it;
  \<^item> \<open>Date_parse\<close>: the time value \<^verbatim>\<open>new Date(s)\<close> gets from a string (\<open>None\<close> for
    \<^verbatim>\<open>NaN\<close>); which strings beyond the ISO format parse is left to the runtime;
  \<^item> \<open>Number_render\<close>: \<^verbatim>\<open>Number::toString\<close> on the finite numbers that are not safe
    integers, that is on fractions and from \<open>2\<^sup>5\<^sup>3\<close> on: the shortest digits that read back
    as the same double, in exponent form from \<open>10\<^sup>2\<^sup>1\<close> on and below \<open>10\<^sup>-\<^sup>6\<close>. The
    model does not compute these digits; it takes them from the runtime;
  \<^item> \<open>now\<close>: the clock's reading taken by \<^verbatim>\<open>new Date()\<close>, in milliseconds.
\<close>

datatype resource =
    Missing      \<comment> \<open>\<^verbatim>\<open>fs.existsSync\<close> is false\<close>
  | Unreadable   \<comment> \<open>\<^verbatim>\<open>fs.readFileSync\<close> throws\<close>
  | Malformed    \<comment> \<open>\<^verbatim>\<open>JSON.parse\<close> throws\<close>
  | Parsed jsval \<comment> \<open>\<^verbatim>\<open>JSON.parse\<close> returns this value\<close>

record runtime =
  SESSIONS_DIR :: "jsstring \<Rightarrow> resource"
  Date_parse :: "jsstring \<Rightarrow> int option"
  Number_render :: "rat \<Rightarrow> jsstring"
  now :: int

subsection \<open>\<^verbatim>\<open>String(v)\<close>\<close>

text \<open>
  The decimal numeral of a natural number, as code units (\<open>48\<close> is the digit zero).
\<close>

fun digits :: "nat \<Rightarrow> jsstring" where
  "digits n = (if n < 10 then [48 + of_nat n] else digits (n div 10) @ [48 + of_nat (n mod 10)])"

declare digits.simps [simp del]

text \<open>
  \<^verbatim>\<open>Number::toString\<close>. For a safe integer, of magnitude at most \<open>2\<^sup>5\<^sup>3 - 1\<close>, it is the
  decimal numeral, with a minus sign (code unit \<open>45\<close>) when negative. Every other finite
  number is rendered by the runtime.
\<close>

definition is_safe_integer :: "rat \<Rightarrow> bool" where
  "is_safe_integer q \<longleftrightarrow> of_int \<lfloor>q\<rfloor> = q \<and> \<bar>q\<bar> \<le> 9007199254740991"

fun Number_toString :: "runtime \<Rightarrow> jsnum \<Rightarrow> jsstring" where
  "Number_toString rt NaN = js_str ''NaN''"
| "Number_toString rt PosInfinity = js_str ''Infinity''"
| "Number_toString rt NegInfinity = js_str ''-Infinity''"
| "Number_toString rt (Finite q) =
     (if is_safe_integer q
      then (if q < 0 then 45 # digits (nat (- \<lfloor>q\<rfloor>)) else digits (nat \<lfloor>q\<rfloor>))
      else Number_render rt q)"

text \<open>
  \<^verbatim>\<open>String(v)\<close> is \<^verbatim>\<open>ToString(v)\<close>. On an object it goes through \<^verbatim>\<open>OrdinaryToPrimitive\<close>
  with hint string: the method \<^verbatim>\<open>toString\<close> is looked up and called when callable, then
  \<^verbatim>\<open>valueOf\<close>, and a \<^verbatim>\<open>TypeError\<close> is thrown when neither gives a primitive.
  \<^item> A plain object inherits \<^verbatim>\<open>Object.prototype.toString\<close>, which gives
    \<^verbatim>\<open>[object Object]\<close>. When the object has an own property \<^verbatim>\<open>toString\<close>, that property
    holds data, which is not callable; \<^verbatim>\<open>valueOf\<close> is then either own data too, or the
    inherited one, which returns the object itself: no primitive, so \<^verbatim>\<open>TypeError\<close>.
  \<^item> An array inherits \<^verbatim>\<open>Array.prototype.toString\<close>, which joins the elements with a
    comma (code unit \<open>44\<close>); \<^verbatim>\<open>null\<close> and \<^verbatim>\<open>undefined\<close> elements give the empty string
    and every other element is converted by \<^verbatim>\<open>ToString\<close> in turn.
\<close>

fun js_String :: "runtime \<Rightarrow> jsval \<Rightarrow> js_error + jsstring"
  and Array_join :: "runtime \<Rightarrow> jsval list \<Rightarrow> js_error + jsstring" where
  "js_String rt JUndefined = Inr (js_str ''undefined'')"
| "js_String rt JNull = Inr (js_str ''null'')"
| "js_String rt (JBool b) = Inr (if b then js_str ''true'' else js_str ''false'')"
| "js_String rt (JNum n) = Inr (Number_toString rt n)"
| "js_String rt (JStr s) = Inr s"
| "js_String rt (JArr xs) = Array_join rt xs"
| "js_String rt (JObj ps) =
     (if map_of ps (js_str ''toString'') \<noteq> None then Inl TypeError
      else Inr (js_str ''[object Object]''))"
| "Array_join rt [] = Inr []"
| "Array_join rt (x # xs) =
     (case (if nullish x then Inr [] else js_String rt x) of
        Inl e \<Rightarrow> Inl e
      | Inr a \<Rightarrow>
          (if xs = [] then Inr a
           else case Array_join rt xs of Inl e \<Rightarrow> Inl e | Inr b \<Rightarrow> Inr (a @ 44 # b)))"

section \<open>\<^verbatim>\<open>estimateTokens\<close>\<close>

text \<open>
  The inner loop, \<^verbatim>\<open>for (const block of content)\<close>, with the running count \<^verbatim>\<open>chars\<close>.
  \<^verbatim>\<open>block && typeof block === "object" && "text" in block\<close> holds of an object that has
  the property \<^verbatim>\<open>text\<close>; \<^verbatim>\<open>null\<close> is falsy, and an array has no such property. The
  conversion \<^verbatim>\<open>String(block.text ?? "")\<close> may throw, which ends the whole call.
\<close>

fun block_loop :: "runtime \<Rightarrow> nat \<Rightarrow> jsval list \<Rightarrow> js_error + nat" where
  "block_loop rt chars [] = Inr chars"
| "block_loop rt chars (block # rest) =
     (case block of
        JStr s \<Rightarrow> block_loop rt (chars + length s) rest
      | JObj ps \<Rightarrow>
          (case map_of ps (js_str ''text'') of
             None \<Rightarrow> block_loop rt chars rest
           | Some text \<Rightarrow>
               (case js_String rt (coalesce text (JStr [])) of
                  Inl e \<Rightarrow> Inl e
                | Inr s \<Rightarrow> block_loop rt (chars + length s) rest))
      | _ \<Rightarrow> block_loop rt chars rest)"

text \<open>The outer loop, \<^verbatim>\<open>for (const msg of messages)\<close>.\<close>

fun msg_loop :: "runtime \<Rightarrow> nat \<Rightarrow> message list \<Rightarrow> js_error + nat" where
  "msg_loop rt chars [] = Inr chars"
| "msg_loop rt chars (msg # rest) =
     (case msg_get msg (js_str ''content'') of
        Data (JStr s) \<Rightarrow> msg_loop rt (chars + length s) rest
      | Data (JArr content) \<Rightarrow>
          (case block_loop rt chars content of
             Inl e \<Rightarrow> Inl e
           | Inr chars' \<Rightarrow> msg_loop rt chars' rest)
      | _ \<Rightarrow> msg_loop rt chars rest)"

text \<open>\<^verbatim>\<open>Math.ceil\<close>, on the exact quotient.\<close>

definition Math_ceil :: "rat \<Rightarrow> int" where
  "Math_ceil q = \<lceil>q\<rceil>"

definition estimateTokens :: "runtime \<Rightarrow> message list \<Rightarrow> js_error + int" where
  "estimateTokens rt messages =
     (case msg_loop rt 0 messages of
        Inl e \<Rightarrow> Inl e
      | Inr chars \<Rightarrow> Inr (Math_ceil (of_nat chars / 4)))"

section \<open>\<^verbatim>\<open>extractTimestamp\<close>\<close>

text \<open>
  \<^verbatim>\<open>TimeClip\<close>: the time value of \<^verbatim>\<open>new Date(n)\<close> for a number \<open>n\<close>. A date reaches
  \<open>8.64 \<times> 10\<^sup>1\<^sup>5\<close> milliseconds to either side of the epoch, and a fraction of a
  millisecond is cut off towards zero.
\<close>

definition ToInteger :: "rat \<Rightarrow> int" where
  "ToInteger q = (if q < 0 then \<lceil>q\<rceil> else \<lfloor>q\<rfloor>)"

fun TimeClip :: "jsnum \<Rightarrow> int option" where
  "TimeClip (Finite q) = (if \<bar>q\<bar> \<le> 8640000000000000 then Some (ToInteger q) else None)"
| "TimeClip _ = None"

fun field_nullish :: "field \<Rightarrow> bool" where
  "field_nullish (Data v) = nullish v"
| "field_nullish (DateObj d) = False"

definition field_coalesce :: "field \<Rightarrow> field \<Rightarrow> field" where
  "field_coalesce a b = (if field_nullish a then b else a)"

text \<open>The result is \<^verbatim>\<open>Date | null\<close>; \<open>None\<close> is \<^verbatim>\<open>null\<close>.\<close>

definition extractTimestamp :: "runtime \<Rightarrow> message \<Rightarrow> date option" where
  "extractTimestamp rt msg =
     (let ts = field_coalesce
                 (field_coalesce (msg_get msg (js_str ''timestamp'')) (msg_get msg (js_str ''ts'')))
                 (msg_get msg (js_str ''createdAt''))
      in case ts of
           DateObj d \<Rightarrow> Some d
         | Data (JStr s) \<Rightarrow>
             (let d = Date (Date_parse rt s) in if getTime d \<noteq> None then Some d else None)
         | Data (JNum n) \<Rightarrow>
             (let d = Date (TimeClip n) in if getTime d \<noteq> None then Some d else None)
         | Data _ \<Rightarrow> None)"

section \<open>\<^verbatim>\<open>loadStoredSummaries\<close>\<close>

definition summaryName :: "jsstring \<Rightarrow> jsstring" where
  "summaryName sessionId = sessionId @ js_str ''.summary.json''"

text \<open>
  The file is named after the session and lies in \<^verbatim>\<open>SESSIONS_DIR\<close>. The result is typed
  \<^verbatim>\<open>SummaryFile | null\<close>, and it is whatever \<^verbatim>\<open>JSON.parse\<close> returned: the cast
  \<^verbatim>\<open>as SummaryFile\<close> checks nothing. Every failure inside \<^verbatim>\<open>try\<close> is caught.
\<close>

definition loadStoredSummaries :: "runtime \<Rightarrow> jsstring \<Rightarrow> jsval" where
  "loadStoredSummaries rt sessionId =
     (case SESSIONS_DIR rt (summaryName sessionId) of
        Missing \<Rightarrow> JNull
      | Unreadable \<Rightarrow> JNull
      | Malformed \<Rightarrow> JNull
      | Parsed v \<Rightarrow> v)"

section \<open>\<^verbatim>\<open>formatSummariesAsContext\<close>\<close>

text \<open>
  Reading a property \<^verbatim>\<open>v.k\<close> of a data value, for the names the code reads
  (\<^verbatim>\<open>summaries\<close>, \<^verbatim>\<open>length\<close>, \<^verbatim>\<open>period\<close>, \<^verbatim>\<open>text\<close>). It throws on \<^verbatim>\<open>null\<close> and \<^verbatim>\<open>undefined\<close>.
  Strings and arrays have \<^verbatim>\<open>length\<close>; booleans and numbers have none of these names.
\<close>

fun get_prop :: "jsval \<Rightarrow> jsstring \<Rightarrow> js_error + jsval" where
  "get_prop JUndefined k = Inl TypeError"
| "get_prop JNull k = Inl TypeError"
| "get_prop (JObj ps) k = Inr (case map_of ps k of None \<Rightarrow> JUndefined | Some v \<Rightarrow> v)"
| "get_prop (JStr s) k =
     Inr (if k = js_str ''length'' then JNum (Finite (of_nat (length s))) else JUndefined)"
| "get_prop (JArr xs) k =
     Inr (if k = js_str ''length'' then JNum (Finite (of_nat (length xs))) else JUndefined)"
| "get_prop (JBool b) k = Inr JUndefined"
| "get_prop (JNum n) k = Inr JUndefined"

text \<open>
  \<^verbatim>\<open>v.slice(-6)\<close>: the last six elements of an array or code units of a string. No other
  value has a callable \<^verbatim>\<open>slice\<close>, and calling what is not a function throws.
\<close>

fun slice_last6 :: "jsval \<Rightarrow> js_error + jsval" where
  "slice_last6 (JArr xs) = Inr (JArr (drop (length xs - 6) xs))"
| "slice_last6 (JStr s) = Inr (JStr (drop (length s - 6) s))"
| "slice_last6 _ = Inl TypeError"

text \<open>
  The bullet of the template literal, as the source file has it: the three characters
  U+00E2, U+20AC, U+00A2.
\<close>

definition bullet :: jsstring where
  "bullet = [0xE2, 0x20AC, 0xA2]"

text \<open>The callback of \<^verbatim>\<open>map\<close>; the template literal converts both properties to strings.\<close>

definition bullet_line :: "runtime \<Rightarrow> jsval \<Rightarrow> js_error + jsstring" where
  "bullet_line rt s =
     (case get_prop s (js_str ''period'') of
        Inl e \<Rightarrow> Inl e
      | Inr p \<Rightarrow>
          (case js_String rt p of
             Inl e \<Rightarrow> Inl e
           | Inr ps \<Rightarrow>
               (case get_prop s (js_str ''text'') of
                  Inl e \<Rightarrow> Inl e
                | Inr t \<Rightarrow>
                    (case js_String rt t of
                       Inl e \<Rightarrow> Inl e
                     | Inr ts \<Rightarrow> Inr (bullet @ js_str '' '' @ ps @ js_str '': '' @ ts)))))"

fun map_bullet_line :: "runtime \<Rightarrow> jsval list \<Rightarrow> js_error + jsstring list" where
  "map_bullet_line rt [] = Inr []"
| "map_bullet_line rt (s # rest) =
     (case bullet_line rt s of
        Inl e \<Rightarrow> Inl e
      | Inr l \<Rightarrow> (case map_bullet_line rt rest of Inl e \<Rightarrow> Inl e | Inr ls \<Rightarrow> Inr (l # ls)))"

text \<open>\<^verbatim>\<open>.join("\n")\<close> on an array of strings; code unit \<open>10\<close> is the line feed.\<close>

fun join_lines :: "jsstring list \<Rightarrow> jsstring" where
  "join_lines [] = []"
| "join_lines [l] = l"
| "join_lines (l # ls) = l @ 10 # join_lines ls"

definition header :: jsstring where
  "header = js_str ''[Context: Earlier conversation summary - for reference only]'' @ [10]"

definition footer :: jsstring where
  "footer = 10 # js_str ''[End summary - respond briefly to recent messages below]'' @ [10]"

text \<open>Only an array has a callable \<^verbatim>\<open>map\<close>: on the slice of a string the call throws.\<close>

definition formatSummariesAsContext :: "runtime \<Rightarrow> jsval \<Rightarrow> js_error + jsstring" where
  "formatSummariesAsContext rt summaries =
     (case get_prop summaries (js_str ''length'') of
        Inl e \<Rightarrow> Inl e
      | Inr len \<Rightarrow>
          if len = JNum (Finite 0) then Inr []
          else
            (case slice_last6 summaries of
               Inl e \<Rightarrow> Inl e
             | Inr (JArr recentSummaries) \<Rightarrow>
                 (case map_bullet_line rt recentSummaries of
                    Inl e \<Rightarrow> Inl e
                  | Inr ls \<Rightarrow> Inr (header @ join_lines ls @ footer))
             | Inr _ \<Rightarrow> Inl TypeError))"

section \<open>\<^verbatim>\<open>loadCompactedContext\<close>\<close>

text \<open>
  The result. \<^verbatim>\<open>summaryCount\<close> holds \<^verbatim>\<open>summaryFile.summaries.length\<close> as it was read, a
  value.
\<close>

record CompactedContext =
  summaryPrefix :: jsstring
  recentMessages :: "message list"
  wasSummarized :: bool
  summaryCount :: jsval

definition KEEP_RECENT_MINUTES :: int where
  "KEEP_RECENT_MINUTES = 60"

text \<open>
  \<^verbatim>\<open>ts >= cutoffTime\<close> on two dates compares their time values as numbers, and a
  comparison with \<^verbatim>\<open>NaN\<close> is false.
\<close>

fun date_ge :: "date \<Rightarrow> date \<Rightarrow> bool" where
  "date_ge (Date (Some a)) (Date (Some b)) = (a \<ge> b)"
| "date_ge _ _ = False"

text \<open>
  The loop that fills \<^verbatim>\<open>recentMessages\<close>; \<^verbatim>\<open>!ts\<close> holds of \<^verbatim>\<open>null\<close> only, a date being
  an object.
\<close>

fun recent_loop :: "runtime \<Rightarrow> date \<Rightarrow> message list \<Rightarrow> message list \<Rightarrow> message list" where
  "recent_loop rt cutoff recent [] = recent"
| "recent_loop rt cutoff recent (msg # rest) =
     (case extractTimestamp rt msg of
        None \<Rightarrow> recent_loop rt cutoff (recent @ [msg]) rest
      | Some ts \<Rightarrow>
          if date_ge ts cutoff then recent_loop rt cutoff (recent @ [msg]) rest
          else recent_loop rt cutoff recent rest)"

text \<open>\<^verbatim>\<open>!v\<close> is true of the falsy values.\<close>

fun truthy :: "jsval \<Rightarrow> bool" where
  "truthy JUndefined = False"
| "truthy JNull = False"
| "truthy (JBool b) = b"
| "truthy (JNum (Finite q)) = (q \<noteq> 0)"
| "truthy (JNum NaN) = False"
| "truthy (JNum PosInfinity) = True"
| "truthy (JNum NegInfinity) = True"
| "truthy (JStr s) = (s \<noteq> [])"
| "truthy (JArr xs) = True"
| "truthy (JObj ps) = True"

definition cutoffTime :: "runtime \<Rightarrow> date" where
  "cutoffTime rt = Date (TimeClip (Finite (of_int (now rt - KEEP_RECENT_MINUTES * 60 * 1000))))"

definition no_summaries :: "message list \<Rightarrow> CompactedContext" where
  "no_summaries allMessages =
     \<lparr>summaryPrefix = [], recentMessages = allMessages, wasSummarized = False,
      summaryCount = JNum (Finite 0)\<rparr>"

text \<open>
  The log line is left out: it prints three lengths and changes nothing. The condition
  \<^verbatim>\<open>!summaryFile || summaryFile.summaries.length === 0\<close> reads two properties in turn, and
  either read throws on \<^verbatim>\<open>null\<close> and \<^verbatim>\<open>undefined\<close>.
\<close>

definition loadCompactedContext ::
  "runtime \<Rightarrow> jsstring \<Rightarrow> message list \<Rightarrow> js_error + CompactedContext" where
  "loadCompactedContext rt sessionId allMessages =
     (let summaryFile = loadStoredSummaries rt sessionId;
          recent = recent_loop rt (cutoffTime rt) [] allMessages
      in if \<not> truthy summaryFile then Inr (no_summaries allMessages)
         else
           (case get_prop summaryFile (js_str ''summaries'') of
              Inl e \<Rightarrow> Inl e
            | Inr summaries \<Rightarrow>
                (case get_prop summaries (js_str ''length'') of
                   Inl e \<Rightarrow> Inl e
                 | Inr len \<Rightarrow>
                     if len = JNum (Finite 0) then Inr (no_summaries allMessages)
                     else
                       (case formatSummariesAsContext rt summaries of
                          Inl e \<Rightarrow> Inl e
                        | Inr pre \<Rightarrow>
                            Inr \<lparr>summaryPrefix = pre, recentMessages = recent,
                                 wasSummarized = True, summaryCount = len\<rparr>))))"

section \<open>The vocabulary of the properties\<close>

subsection \<open>The declared shapes\<close>

text \<open>
  The interfaces \<^verbatim>\<open>StoredSummary\<close> and \<^verbatim>\<open>SummaryFile\<close>, as predicates on parsed JSON.
  Properties beyond the declared ones are allowed, as in TypeScript.
\<close>

definition has_string :: "(jsstring \<times> jsval) list \<Rightarrow> jsstring \<Rightarrow> bool" where
  "has_string ps k = (case map_of ps k of Some (JStr s) \<Rightarrow> True | _ \<Rightarrow> False)"

definition has_number :: "(jsstring \<times> jsval) list \<Rightarrow> jsstring \<Rightarrow> bool" where
  "has_number ps k = (case map_of ps k of Some (JNum n) \<Rightarrow> True | _ \<Rightarrow> False)"

definition has_string_or_null :: "(jsstring \<times> jsval) list \<Rightarrow> jsstring \<Rightarrow> bool" where
  "has_string_or_null ps k =
     (case map_of ps k of Some (JStr s) \<Rightarrow> True | Some JNull \<Rightarrow> True | _ \<Rightarrow> False)"

fun is_StoredSummary :: "jsval \<Rightarrow> bool" where
  "is_StoredSummary (JObj ps) =
     (has_string ps (js_str ''period'') \<and> has_string ps (js_str ''hourKey'') \<and>
      has_string ps (js_str ''text'') \<and> has_number ps (js_str ''messageCount'') \<and>
      has_string ps (js_str ''createdAt''))"
| "is_StoredSummary _ = False"

fun is_SummaryFile :: "jsval \<Rightarrow> bool" where
  "is_SummaryFile (JObj ps) =
     ((case map_of ps (js_str ''summaries'') of
         Some (JArr xs) \<Rightarrow> list_all is_StoredSummary xs
       | _ \<Rightarrow> False) \<and>
      has_string_or_null ps (js_str ''lastSummarizedAt'') \<and>
      has_number ps (js_str ''lastProcessedLine''))"
| "is_SummaryFile _ = False"

text \<open>The line a well-shaped summary is rendered to.\<close>

fun the_string :: "jsval option \<Rightarrow> jsstring" where
  "the_string (Some (JStr s)) = s"
| "the_string _ = []"

fun summary_line :: "jsval \<Rightarrow> jsstring" where
  "summary_line (JObj ps) =
     bullet @ js_str '' '' @ the_string (map_of ps (js_str ''period'')) @ js_str '': '' @
     the_string (map_of ps (js_str ''text''))"
| "summary_line _ = []"

subsection \<open>The recency rule\<close>

definition keeps :: "runtime \<Rightarrow> message \<Rightarrow> bool" where
  "keeps rt msg =
     (case extractTimestamp rt msg of None \<Rightarrow> True | Some ts \<Rightarrow> date_ge ts (cutoffTime rt))"

text \<open>
  The candidate properties in their order, the first of them that holds neither \<^verbatim>\<open>null\<close>
  nor \<^verbatim>\<open>undefined\<close>, and the point in time a value is coerced to.
\<close>

definition candidates :: "jsstring list" where
  "candidates = [js_str ''timestamp'', js_str ''ts'', js_str ''createdAt'']"

fun first_present :: "message \<Rightarrow> jsstring list \<Rightarrow> field" where
  "first_present msg [] = Data JUndefined"
| "first_present msg (k # ks) =
     (if field_nullish (msg_get msg k) then first_present msg ks else msg_get msg k)"

fun time_of :: "runtime \<Rightarrow> field \<Rightarrow> int option" where
  "time_of rt (DateObj d) = getTime d"
| "time_of rt (Data (JStr s)) = Date_parse rt s"
| "time_of rt (Data (JNum n)) = TimeClip n"
| "time_of rt (Data _) = None"

subsection \<open>The character count, case by case\<close>

text \<open>
  What one block, one content value and a sequence of messages contribute. The length of
  a \<^verbatim>\<open>text\<close> property is the length of its rendering as a string, with \<^verbatim>\<open>null\<close> and
  \<^verbatim>\<open>undefined\<close> rendered as the empty string.
\<close>

definition text_length :: "runtime \<Rightarrow> jsval \<Rightarrow> nat" where
  "text_length rt t = (case js_String rt (coalesce t (JStr [])) of Inl e \<Rightarrow> 0 | Inr s \<Rightarrow> length s)"

fun block_chars :: "runtime \<Rightarrow> jsval \<Rightarrow> nat" where
  "block_chars rt (JStr s) = length s"
| "block_chars rt (JObj ps) =
     (case map_of ps (js_str ''text'') of None \<Rightarrow> 0 | Some t \<Rightarrow> text_length rt t)"
| "block_chars rt _ = 0"

fun content_chars :: "runtime \<Rightarrow> field \<Rightarrow> nat" where
  "content_chars rt (Data (JStr s)) = length s"
| "content_chars rt (Data (JArr blocks)) = sum_list (map (block_chars rt) blocks)"
| "content_chars rt _ = 0"

definition totalChars :: "runtime \<Rightarrow> message list \<Rightarrow> nat" where
  "totalChars rt messages =
     sum_list (map (\<lambda>msg. content_chars rt (msg_get msg (js_str ''content''))) messages)"

text \<open>Whether every \<^verbatim>\<open>text\<close> property in sight can be rendered as a string.\<close>

definition text_renders :: "runtime \<Rightarrow> jsval \<Rightarrow> bool" where
  "text_renders rt t = (case js_String rt (coalesce t (JStr [])) of Inl e \<Rightarrow> False | Inr s \<Rightarrow> True)"

fun block_renders :: "runtime \<Rightarrow> jsval \<Rightarrow> bool" where
  "block_renders rt (JObj ps) =
     (case map_of ps (js_str ''text'') of None \<Rightarrow> True | Some t \<Rightarrow> text_renders rt t)"
| "block_renders rt _ = True"

fun content_renders :: "runtime \<Rightarrow> field \<Rightarrow> bool" where
  "content_renders rt (Data (JArr blocks)) = list_all (block_renders rt) blocks"
| "content_renders rt _ = True"

definition message_renders :: "runtime \<Rightarrow> message \<Rightarrow> bool" where
  "message_renders rt msg = content_renders rt (msg_get msg (js_str ''content''))"

text \<open>
  The values \<^verbatim>\<open>String\<close> throws on: an object with an own property \<^verbatim>\<open>toString\<close>, and an
  array with such a value among its elements.
\<close>

fun shadows_toString :: "jsval \<Rightarrow> bool" where
  "shadows_toString (JObj ps) = (map_of ps (js_str ''toString'') \<noteq> None)"
| "shadows_toString (JArr xs) = list_ex shadows_toString xs"
| "shadows_toString _ = False"

subsection \<open>Fixtures\<close>

text \<open>
  A runtime for the concrete cases: one summary file, for the session \<^verbatim>\<open>s\<close>, a clock at
  2023-11-14T23:13:20Z, a date parser that knows that hour's start, and the renderings of
  \<open>10\<^sup>2\<^sup>1\<close> and of one half.
\<close>

definition fixture :: "resource \<Rightarrow> runtime" where
  "fixture r =
     \<lparr>SESSIONS_DIR = (\<lambda>name. if name = js_str ''s.summary.json'' then r else Missing),
      Date_parse = (\<lambda>s. if s = js_str ''2023-11-14T22:13:20.000Z'' then Some 1700000000000 else None),
      Number_render = (\<lambda>q. if q = 10 ^ 21 then js_str ''1e+21''
                          else if q = 1 / 2 then js_str ''0.5'' else []),
      now = 1700003600000\<rparr>"

definition summary :: "string \<Rightarrow> string \<Rightarrow> jsval" where
  "summary p t =
     JObj [(js_str ''period'', JStr (js_str p)), (js_str ''hourKey'', JStr (js_str ''2023-11-14T21'')),
           (js_str ''text'', JStr (js_str t)), (js_str ''messageCount'', JNum (Finite 3)),
           (js_str ''createdAt'', JStr (js_str ''2023-11-14T22:00:00.000Z''))]"

definition summary_file :: "jsval list \<Rightarrow> jsval" where
  "summary_file xs =
     JObj [(js_str ''summaries'', JArr xs), (js_str ''lastSummarizedAt'', JNull),
           (js_str ''lastProcessedLine'', JNum (Finite 0))]"

text \<open>
  One stored summary and the prefix it is formatted to; seven stored summaries; a message
  stamped at the cutoff, one a millisecond before it, and one whose \<^verbatim>\<open>timestamp\<close> is an
  invalid \<^verbatim>\<open>Date\<close> instance, \<^verbatim>\<open>new Date(NaN)\<close>.
\<close>

definition one_summary :: jsval where
  "one_summary = summary_file [summary ''21:00-22:00'' ''talk'']"

definition one_summary_prefix :: jsstring where
  "one_summary_prefix = header @ bullet @ js_str '' 21:00-22:00: talk'' @ footer"

definition seven_summaries :: "jsval list" where
  "seven_summaries =
     map (\<lambda>p. summary p ''talk'')
       [''15:00'', ''16:00'', ''17:00'', ''18:00'', ''19:00'', ''20:00'', ''21:00'']"

definition at_cutoff :: message where
  "at_cutoff = [(js_str ''role'', Data (JStr (js_str ''user''))),
                (js_str ''timestamp'', Data (JNum (Finite 1700000000000)))]"

definition before_cutoff :: message where
  "before_cutoff = [(js_str ''role'', Data (JStr (js_str ''user''))),
                    (js_str ''ts'', Data (JNum (Finite 1699999999999)))]"

definition invalid_date :: message where
  "invalid_date = [(js_str ''timestamp'', DateObj (Date None))]"

section \<open>The token estimate\<close>

text \<open>
  The two loops compute the case-by-case count, unless a rendering throws; the running
  count is generalised, since each step changes it.
\<close>

lemma block_loop_eq:
  "block_loop rt chars blocks =
     (if list_all (block_renders rt) blocks then Inr (chars + sum_list (map (block_chars rt) blocks))
      else Inl TypeError)"
proof (induction blocks arbitrary: chars)
  case Nil
  show ?case by simp
next
  case (Cons b bs)
  show ?case
  proof (cases b)
    case (JObj ps)
    show ?thesis
    proof (cases "map_of ps (js_str ''text'')")
      case None
      with JObj Cons show ?thesis by simp
    next
      case (Some t)
      show ?thesis
      proof (cases "js_String rt (coalesce t (JStr []))")
        case (Inl e)
        then have "e = TypeError" by (cases e) simp
        with Inl JObj Some show ?thesis by (simp add: text_renders_def)
      next
        case (Inr s)
        with JObj Some Cons show ?thesis by (simp add: text_renders_def text_length_def)
      qed
    qed
  qed (simp_all add: Cons)
qed

lemma msg_loop_eq:
  "msg_loop rt chars messages =
     (if list_all (message_renders rt) messages
      then Inr (chars + totalChars rt messages) else Inl TypeError)"
proof (induction messages arbitrary: chars)
  case Nil
  show ?case by (simp add: totalChars_def)
next
  case (Cons m ms)
  show ?case
  proof (cases "msg_get m (js_str ''content'')")
    case (Data v)
    then show ?thesis
      by (cases v) (simp_all add: Cons message_renders_def totalChars_def block_loop_eq)
  next
    case (DateObj d)
    then show ?thesis by (simp add: Cons message_renders_def totalChars_def)
  qed
qed

lemma ceil_quarter: "\<lceil>(of_nat n :: rat) / 4\<rceil> = int ((n + 3) div 4)"
proof -
  have "\<lceil>(of_nat n :: rat) / 4\<rceil> = \<lceil>(of_int (int n) :: rat) / of_int 4\<rceil>" by simp
  also have "\<dots> = - ((- int n) div 4)" by (simp only: ceiling_divide_eq_div)
  also have "\<dots> = int ((n + 3) div 4)" by presburger
  finally show ?thesis .
qed

text \<open>When a rendering throws; the induction follows the two functions' recursion.\<close>

lemma js_String_throws:
  "(js_String rt v = Inl TypeError) = shadows_toString v"
  "(Array_join rt xs = Inl TypeError) = list_ex shadows_toString xs"
proof (induction rt v and rt xs rule: js_String_Array_join.induct)
  case (9 rt x xs)
  have e: "e = TypeError" for e by (cases e) simp
  show ?case
  proof (cases "nullish x")
    case True
    then have "\<not> shadows_toString x" by (cases x) simp_all
    with True 9 show ?thesis by (auto split: sum.splits simp: e)
  next
    case False
    with 9 show ?thesis by (auto split: sum.splits simp: e)
  qed
qed simp_all

lemma text_renders_iff: "text_renders rt t \<longleftrightarrow> \<not> shadows_toString t"
proof -
  have e: "e = TypeError" for e by (cases e) simp
  have "text_renders rt t \<longleftrightarrow> js_String rt (coalesce t (JStr [])) \<noteq> Inl TypeError"
    by (auto simp: text_renders_def e split: sum.splits)
  also have "\<dots> \<longleftrightarrow> \<not> shadows_toString (coalesce t (JStr []))"
    by (simp add: js_String_throws)
  also have "\<dots> \<longleftrightarrow> \<not> shadows_toString t"
    by (cases t) (simp_all add: coalesce_def)
  finally show ?thesis .
qed

lemma subseq_list_all: "subseq xs ys \<Longrightarrow> list_all P ys \<Longrightarrow> list_all P xs"
  by (induction rule: list_emb.induct) simp_all

lemma subseq_sum_list:
  "subseq xs ys \<Longrightarrow> sum_list (map f xs) \<le> sum_list (map (f :: 'a \<Rightarrow> nat) ys)"
  by (induction rule: list_emb.induct) (simp_all add: trans_le_add2)

text \<open>
  Claim C7, as the code has it. \<^verbatim>\<open>estimateTokens\<close> returns the non-negative integer
  \<open>\<lceil>totalChars / 4\<rceil>\<close> on every message sequence in which each \<^verbatim>\<open>text\<close> property of a
  content block can be rendered as a string, and throws a \<^verbatim>\<open>TypeError\<close> on every other.
  Here \<open>totalChars\<close> adds up, per message, the length of a string content, or over an array
  content the length of each string block and of the rendering of each object block's
  \<^verbatim>\<open>text\<close>, and zero for every other shape of block or content.
\<close>

theorem estimateTokens_ceil:
  "estimateTokens rt messages =
     (if list_all (message_renders rt) messages
      then Inr \<lceil>(of_nat (totalChars rt messages) :: rat) / 4\<rceil> else Inl TypeError)
   \<and> \<lceil>(of_nat (totalChars rt messages) :: rat) / 4\<rceil> = int ((totalChars rt messages + 3) div 4)
   \<and> (0::int) \<le> \<lceil>(of_nat (totalChars rt messages) :: rat) / 4\<rceil>"
  by (simp add: estimateTokens_def msg_loop_eq Math_ceil_def ceil_quarter)

text \<open>
  Four messages: a string content, an array content with blocks of five shapes, a content
  that is a number, and no content: 5 + (2 + 4) = 11 characters, 3 tokens. And one message
  with a \<^verbatim>\<open>text\<close> that cannot be rendered, the array \<^verbatim>\<open>[1, {"toString": null}]\<close>.
\<close>

theorem estimateTokens_ceil_witness:
  "list_all (message_renders (fixture Missing))
     [[(js_str ''content'', Data (JStr (js_str ''hello'')))],
      [(js_str ''content'',
        Data (JArr [JStr (js_str ''ab''), JObj [(js_str ''text'', JStr (js_str ''abcd''))],
                    JObj [(js_str ''type'', JStr (js_str ''image''))], JNull, JNum (Finite 7)]))],
      [(js_str ''content'', Data (JNum (Finite 5)))],
      [(js_str ''role'', Data (JStr (js_str ''user'')))]]
   \<and> estimateTokens (fixture Missing)
     [[(js_str ''content'', Data (JStr (js_str ''hello'')))],
      [(js_str ''content'',
        Data (JArr [JStr (js_str ''ab''), JObj [(js_str ''text'', JStr (js_str ''abcd''))],
                    JObj [(js_str ''type'', JStr (js_str ''image''))], JNull, JNum (Finite 7)]))],
      [(js_str ''content'', Data (JNum (Finite 5)))],
      [(js_str ''role'', Data (JStr (js_str ''user'')))]] = Inr 3
   \<and> \<not> list_all (message_renders (fixture Missing))
     [[(js_str ''content'',
        Data (JArr [JObj [(js_str ''text'',
                          JArr [JNum (Finite 1), JObj [(js_str ''toString'', JNull)]])]]))]]
   \<and> estimateTokens (fixture Missing)
     [[(js_str ''content'',
        Data (JArr [JObj [(js_str ''text'',
                          JArr [JNum (Finite 1), JObj [(js_str ''toString'', JNull)]])]]))]]
     = Inl TypeError"
proof -
  let ?ms = "[[(js_str ''content'', Data (JStr (js_str ''hello'')))],
      [(js_str ''content'',
        Data (JArr [JStr (js_str ''ab''), JObj [(js_str ''text'', JStr (js_str ''abcd''))],
                    JObj [(js_str ''type'', JStr (js_str ''image''))], JNull, JNum (Finite 7)]))],
      [(js_str ''content'', Data (JNum (Finite 5)))],
      [(js_str ''role'', Data (JStr (js_str ''user'')))]]"
  let ?bad = "[[(js_str ''content'',
        Data (JArr [JObj [(js_str ''text'',
                          JArr [JNum (Finite 1), JObj [(js_str ''toString'', JNull)]])]]))]]"
  have ok: "list_all (message_renders (fixture Missing)) ?ms"
    by (simp add: message_renders_def msg_get_def js_str_def text_renders_def coalesce_def)
  have total: "totalChars (fixture Missing) ?ms = 11"
    by (simp add: totalChars_def msg_get_def js_str_def text_length_def coalesce_def)
  have bad: "\<not> list_all (message_renders (fixture Missing)) ?bad"
    by (simp add: message_renders_def msg_get_def js_str_def text_renders_def coalesce_def)
  from estimateTokens_ceil [of "fixture Missing" ?ms] ok
  have "estimateTokens (fixture Missing) ?ms = Inr (int ((totalChars (fixture Missing) ?ms + 3) div 4))"
    by simp
  moreover from estimateTokens_ceil [of "fixture Missing" ?bad] bad have "estimateTokens (fixture Missing) ?bad = Inl TypeError"
    by simp
  ultimately show ?thesis using ok total bad by simp
qed

text \<open>
  Claim C7, as stated, says that the function never throws on malformed content. It does:
  on a block whose \<^verbatim>\<open>text\<close> is an object with an own property \<^verbatim>\<open>toString\<close>, say
  \<^verbatim>\<open>{"text": {"toString": 0}}\<close>, the call \<^verbatim>\<open>String(...)\<close> throws a \<^verbatim>\<open>TypeError\<close>.
\<close>

theorem estimateTokens_throws:
  "estimateTokens (fixture Missing)
     [[(js_str ''content'',
        Data (JArr [JObj [(js_str ''text'', JObj [(js_str ''toString'', JNum (Finite 0))])]]))]]
   = Inl TypeError"
  by (simp add: estimateTokens_def msg_get_def js_str_def coalesce_def)

text \<open>
  Claim C8. When messages are removed from a sequence whose estimate exists, the estimate
  of what is left exists too and is not greater.
\<close>

theorem estimateTokens_mono:
  assumes "subseq smaller larger" and "estimateTokens rt larger = Inr b"
  shows "\<exists>a. estimateTokens rt smaller = Inr a \<and> a \<le> b"
proof -
  from assms(2) have ok: "list_all (message_renders rt) larger"
    by (simp add: estimateTokens_def msg_loop_eq split: if_splits)
  with assms(1) have ok': "list_all (message_renders rt) smaller"
    by (rule subseq_list_all)
  from assms(1) have "totalChars rt smaller \<le> totalChars rt larger"
    unfolding totalChars_def by (rule subseq_sum_list)
  then have "(totalChars rt smaller + 3) div 4 \<le> (totalChars rt larger + 3) div 4"
    by (simp add: div_le_mono)
  with ok ok' assms(2) show ?thesis
    by (simp add: estimateTokens_def msg_loop_eq Math_ceil_def ceil_quarter)
qed

text \<open>Removing a message of three characters from eight: two tokens before and after.\<close>

theorem estimateTokens_mono_witness:
  "subseq [[(js_str ''content'', Data (JStr (js_str ''hello'')))]]
          [[(js_str ''content'', Data (JStr (js_str ''abc'')))],
           [(js_str ''content'', Data (JStr (js_str ''hello'')))]]
   \<and> estimateTokens (fixture Missing) [[(js_str ''content'', Data (JStr (js_str ''abc'')))],
                     [(js_str ''content'', Data (JStr (js_str ''hello'')))]] = Inr 2
   \<and> estimateTokens (fixture Missing) [[(js_str ''content'', Data (JStr (js_str ''hello'')))]] = Inr 2"
proof -
  let ?m = "[(js_str ''content'', Data (JStr (js_str ''hello'')))]"
  let ?n = "[(js_str ''content'', Data (JStr (js_str ''abc'')))]"
  have s: "subseq [?m] [?n, ?m]" by simp
  have b: "estimateTokens (fixture Missing) [?n, ?m] = Inr 2"
    by (simp add: estimateTokens_def msg_get_def js_str_def Math_ceil_def)
  from estimateTokens_mono [OF s b] obtain a where "estimateTokens (fixture Missing) [?m] = Inr a" and "a \<le> 2"
    by blast
  moreover have "estimateTokens (fixture Missing) [?m] = Inr 2"
    by code_simp
  ultimately show ?thesis using s b by simp
qed

text \<open>A block in the middle of a content array, and a message in the middle of a sequence.\<close>

lemma block_loop_append:
  "block_loop rt chars (bs1 @ bs2) =
     (case block_loop rt chars bs1 of Inl e \<Rightarrow> Inl e | Inr c \<Rightarrow> block_loop rt c bs2)"
  by (induction bs1 arbitrary: chars) (simp_all split: jsval.splits option.splits sum.splits)

lemma msg_loop_append:
  "msg_loop rt chars (ms1 @ ms2) =
     (case msg_loop rt chars ms1 of Inl e \<Rightarrow> Inl e | Inr c \<Rightarrow> msg_loop rt c ms2)"
  by (induction ms1 arbitrary: chars)
     (simp_all split: field.splits jsval.splits option.splits sum.splits)

text \<open>
  Claim C10. Take any message sequence and, in the content array of one of its messages,
  a block that is an object with a \<^verbatim>\<open>text\<close> property, whatever the property holds and so
  in particular when it is not a string. When \<^verbatim>\<open>estimateTokens\<close> counts \<open>c\<close> characters on
  the sequence with that block taken out, then on the sequence with the block it throws
  if \<^verbatim>\<open>String(text ?? "")\<close> throws, and otherwise returns \<open>\<lceil>(c + n) / 4\<rceil>\<close>, where \<open>n\<close> is
  the length of that rendering: the block adds the length of the rendering of its
  \<^verbatim>\<open>text\<close>, not zero. The number 1234 adds 4, and \<^verbatim>\<open>null\<close> and \<^verbatim>\<open>undefined\<close> add 0.
\<close>

theorem nonstring_text_adds_rendering:
  assumes "msg_get m (js_str ''content'') = Data (JArr (bs1 @ JObj ps # bs2))"
    and "map_of ps (js_str ''text'') = Some v"
    and "msg_get m' (js_str ''content'') = Data (JArr (bs1 @ bs2))"
    and "msg_loop rt 0 (before @ m' # after) = Inr c"
  shows "estimateTokens rt (before @ m # after) =
           (case js_String rt (coalesce v (JStr [])) of
              Inl e \<Rightarrow> Inl e
            | Inr r \<Rightarrow> Inr \<lceil>(of_nat (c + length r) :: rat) / 4\<rceil>)
         \<and> (v = JNum (Finite 1234) \<longrightarrow>
              estimateTokens rt (before @ m # after) = Inr \<lceil>(of_nat (c + 4) :: rat) / 4\<rceil>)
         \<and> (v = JNull \<or> v = JUndefined \<longrightarrow>
              estimateTokens rt (before @ m # after) = Inr \<lceil>(of_nat c :: rat) / 4\<rceil>)"
proof -
  have e: "e = TypeError" for e by (cases e) simp
  from assms(4) have ok: "list_all (message_renders rt) (before @ m' # after)"
    and c: "c = totalChars rt (before @ m' # after)"
    by (simp_all add: msg_loop_eq split: if_splits)
  from ok assms(3) have rest: "list_all (message_renders rt) before"
    "list_all (message_renders rt) after"
    "list_all (block_renders rt) bs1" "list_all (block_renders rt) bs2"
    by (simp_all add: message_renders_def)
  from assms(1,2) rest
  have renders: "list_all (message_renders rt) (before @ m # after) \<longleftrightarrow> text_renders rt v"
    by (simp add: message_renders_def)
  have main: "estimateTokens rt (before @ m # after) =
           (case js_String rt (coalesce v (JStr [])) of
              Inl e \<Rightarrow> Inl e
            | Inr r \<Rightarrow> Inr \<lceil>(of_nat (c + length r) :: rat) / 4\<rceil>)"
  proof (cases "js_String rt (coalesce v (JStr []))")
    case (Inl x)
    then have "\<not> text_renders rt v" by (simp add: text_renders_def)
    with renders have "estimateTokens rt (before @ m # after) = Inl TypeError"
      by (simp add: estimateTokens_def msg_loop_eq)
    with Inl e [of x] show ?thesis by simp
  next
    case (Inr r)
    then have "text_renders rt v" by (simp add: text_renders_def)
    moreover from Inr assms(1,2,3)
    have "totalChars rt (before @ m # after) = c + length r"
      by (simp add: c totalChars_def text_length_def)
    ultimately show ?thesis using Inr renders
      by (simp add: estimateTokens_def msg_loop_eq Math_ceil_def)
  qed
  have safe: "is_safe_integer 1234" by (simp add: is_safe_integer_def)
  have "js_String rt (coalesce (JNum (Finite 1234)) (JStr [])) = Inr (js_str ''1234'')"
    by (simp add: coalesce_def safe js_str_def digits.simps)
  with main show ?thesis by (auto simp: coalesce_def js_str_def add.commute)
qed

text \<open>
  Between two messages of five and three characters, a message whose content array holds
  a string block of two characters and then the block in question: without it the count
  is 10. With \<^verbatim>\<open>text: 1234\<close> the estimate is \<open>\<lceil>14 / 4\<rceil> = 4\<close>, with \<^verbatim>\<open>text: null\<close> it is
  \<open>\<lceil>10 / 4\<rceil> = 3\<close>, and with \<^verbatim>\<open>text: 1e21\<close>, rendered in exponent form with five
  characters, it is 4 again.
\<close>

theorem nonstring_text_adds_rendering_witness:
  "msg_loop (fixture Missing) 0
     [[(js_str ''content'', Data (JStr (js_str ''hello'')))],
      [(js_str ''content'', Data (JArr [JStr (js_str ''ab'')]))],
      [(js_str ''content'', Data (JStr (js_str ''abc'')))]] = Inr 10
   \<and> estimateTokens (fixture Missing)
     [[(js_str ''content'', Data (JStr (js_str ''hello'')))],
      [(js_str ''content'',
        Data (JArr [JStr (js_str ''ab''), JObj [(js_str ''text'', JNum (Finite 1234))]]))],
      [(js_str ''content'', Data (JStr (js_str ''abc'')))]] = Inr 4
   \<and> estimateTokens (fixture Missing)
     [[(js_str ''content'', Data (JStr (js_str ''hello'')))],
      [(js_str ''content'',
        Data (JArr [JStr (js_str ''ab''), JObj [(js_str ''text'', JNull)]]))],
      [(js_str ''content'', Data (JStr (js_str ''abc'')))]] = Inr 3
   \<and> estimateTokens (fixture Missing)
     [[(js_str ''content'', Data (JStr (js_str ''hello'')))],
      [(js_str ''content'',
        Data (JArr [JStr (js_str ''ab''), JObj [(js_str ''text'', JNum (Finite (10 ^ 21)))]]))],
      [(js_str ''content'', Data (JStr (js_str ''abc'')))]] = Inr 4"
proof -
  let ?rt = "fixture Missing"
  let ?a = "[(js_str ''content'', Data (JStr (js_str ''hello'')))]"
  let ?z = "[(js_str ''content'', Data (JStr (js_str ''abc'')))]"
  let ?m' = "[(js_str ''content'', Data (JArr [JStr (js_str ''ab'')]))]"
  let ?m = "\<lambda>v. [(js_str ''content'',
                   Data (JArr [JStr (js_str ''ab''), JObj [(js_str ''text'', v)]]))]"
  have without: "msg_loop ?rt 0 ([?a] @ ?m' # [?z]) = Inr 10"
    by (simp add: msg_get_def js_str_def)
  have m': "msg_get ?m' (js_str ''content'') = Data (JArr ([JStr (js_str ''ab'')] @ []))"
    by (simp add: msg_get_def js_str_def)
  have m: "msg_get (?m v) (js_str ''content'')
             = Data (JArr ([JStr (js_str ''ab'')] @ JObj [(js_str ''text'', v)] # []))" for v
    by (simp add: msg_get_def js_str_def)
  have t: "map_of [(js_str ''text'', v)] (js_str ''text'') = Some v" for v
    by simp
  have big: "js_String ?rt (coalesce (JNum (Finite (10 ^ 21))) (JStr [])) = Inr (js_str ''1e+21'')"
    by (simp add: coalesce_def is_safe_integer_def fixture_def)
  have ceils: "\<lceil>(7 :: rat) / 2\<rceil> = 4" "\<lceil>(5 :: rat) / 2\<rceil> = 3" "\<lceil>(15 :: rat) / 4\<rceil> = 4"
    by code_simp+
  from nonstring_text_adds_rendering [OF m t m' without, of "JNum (Finite 1234)"]
  have "estimateTokens ?rt ([?a] @ ?m (JNum (Finite 1234)) # [?z]) = Inr 4"
    by (simp add: ceils coalesce_def is_safe_integer_def digits.simps)
  moreover from nonstring_text_adds_rendering [OF m t m' without, of JNull]
  have "estimateTokens ?rt ([?a] @ ?m JNull # [?z]) = Inr 3"
    by (simp add: ceils coalesce_def)
  moreover from nonstring_text_adds_rendering [OF m t m' without, of "JNum (Finite (10 ^ 21))"] big
  have "estimateTokens ?rt ([?a] @ ?m (JNum (Finite (10 ^ 21))) # [?z]) = Inr 4"
    by (simp add: js_str_def ceils)
  ultimately show ?thesis using without by simp
qed

section \<open>Timestamps and the recent window\<close>

lemmas fixture_defs = fixture_def summary_def summary_file_def one_summary_def
  one_summary_prefix_def seven_summaries_def at_cutoff_def before_cutoff_def invalid_date_def

lemmas eval_defs = loadCompactedContext_def loadStoredSummaries_def summaryName_def
  formatSummariesAsContext_def bullet_line_def extractTimestamp_def msg_get_def
  field_coalesce_def cutoffTime_def KEEP_RECENT_MINUTES_def no_summaries_def js_str_def
  bullet_def header_def footer_def ToInteger_def is_safe_integer_def

text \<open>A whole number of milliseconds within the range of dates is its own time value.\<close>

lemma TimeClip_of_int:
  "TimeClip (Finite (of_int x)) = (if \<bar>x\<bar> \<le> 8640000000000000 then Some x else None)"
proof -
  have "\<bar>of_int x :: rat\<bar> \<le> 8640000000000000 \<longleftrightarrow> \<bar>x\<bar> \<le> 8640000000000000"
    by (simp only: of_int_abs [symmetric] of_int_le_numeral_iff)
  moreover have "ToInteger (of_int x) = x"
    by (simp add: ToInteger_def)
  ultimately show ?thesis by simp
qed

text \<open>The loop is a filter: it keeps the order and appends to what it was given.\<close>

lemma recent_loop_filter:
  "recent_loop rt cutoff recent msgs =
     recent @ filter (\<lambda>msg. case extractTimestamp rt msg of None \<Rightarrow> True
                              | Some ts \<Rightarrow> date_ge ts cutoff) msgs"
  by (induction msgs arbitrary: recent) (simp_all split: option.splits)

lemma recent_loop_keeps: "recent_loop rt (cutoffTime rt) [] msgs = filter (keeps rt) msgs"
  by (simp add: recent_loop_filter keeps_def [abs_def])

lemma summarized_recent:
  assumes "loadCompactedContext rt sessionId allMessages = Inr r" and "wasSummarized r"
  shows "recentMessages r = filter (keeps rt) allMessages"
  using assms
  by (auto simp: loadCompactedContext_def no_summaries_def Let_def recent_loop_keeps
      split: if_splits sum.splits)

text \<open>A message for which \<^verbatim>\<open>extractTimestamp\<close> returns \<^verbatim>\<open>null\<close> is always kept.\<close>

lemma unknown_timestamp_kept:
  assumes "loadCompactedContext rt sessionId allMessages = Inr r"
    and "msg \<in> set allMessages" and "extractTimestamp rt msg = None"
  shows "msg \<in> set (recentMessages r)"
proof (cases "wasSummarized r")
  case True
  from summarized_recent [OF assms(1) True] assms(2,3) show ?thesis
    by (simp add: keeps_def)
next
  case False
  with assms(1,2) show ?thesis
    by (auto simp: loadCompactedContext_def no_summaries_def Let_def split: if_splits sum.splits)
qed

text \<open>
  Claim C3 at the input where the code departs from it: with one stored summary, a message
  whose \<^verbatim>\<open>timestamp\<close> is an invalid \<^verbatim>\<open>Date\<close> instance has no valid point in time, yet
  \<^verbatim>\<open>extractTimestamp\<close> returns the instance unchecked, the comparison with the cutoff is
  false, and the message is left out of \<^verbatim>\<open>recentMessages\<close>.
\<close>

theorem invalid_Date_is_dropped:
  "extractTimestamp (fixture (Parsed one_summary)) invalid_date = Some (Date None)
   \<and> loadCompactedContext (fixture (Parsed one_summary)) (js_str ''s'') [invalid_date] =
       Inr \<lparr>summaryPrefix = one_summary_prefix, recentMessages = [],
            wasSummarized = True, summaryCount = JNum (Finite 1)\<rparr>"
  by (simp add: eval_defs fixture_defs)

text \<open>
  Claim C5. When summaries exist and the cutoff, an hour before the clock's reading, is
  itself a valid date, a message with an extracted valid timestamp \<open>t\<close> is among
  \<^verbatim>\<open>recentMessages\<close> if and only if \<open>t\<close> is at or after the cutoff.
\<close>

theorem recent_iff_at_or_after_cutoff:
  assumes "loadCompactedContext rt sessionId allMessages = Inr r" and "wasSummarized r"
    and "msg \<in> set allMessages"
    and "extractTimestamp rt msg = Some (Date (Some t))"
    and "\<bar>now rt - 60 * 60 * 1000\<bar> \<le> 8640000000000000"
  shows "msg \<in> set (recentMessages r) \<longleftrightarrow> now rt - 60 * 60 * 1000 \<le> t"
proof -
  from assms(5) have "cutoffTime rt = Date (Some (now rt - 60 * 60 * 1000))"
    unfolding cutoffTime_def KEEP_RECENT_MINUTES_def TimeClip_of_int by simp
  with assms(4) have "keeps rt msg \<longleftrightarrow> now rt - 60 * 60 * 1000 \<le> t"
    by (simp add: keeps_def)
  with summarized_recent [OF assms(1,2)] assms(3) show ?thesis by simp
qed

text \<open>
  The boundary: the message stamped exactly at the cutoff is kept, the one stamped a
  millisecond earlier is not.
\<close>

theorem recent_iff_at_or_after_cutoff_witness:
  "loadCompactedContext (fixture (Parsed one_summary)) (js_str ''s'') [at_cutoff, before_cutoff]
     = Inr \<lparr>summaryPrefix = one_summary_prefix, recentMessages = [at_cutoff],
            wasSummarized = True, summaryCount = JNum (Finite 1)\<rparr>
   \<and> extractTimestamp (fixture (Parsed one_summary)) at_cutoff
       = Some (Date (Some (now (fixture (Parsed one_summary)) - 60 * 60 * 1000)))
   \<and> at_cutoff \<in> set [at_cutoff]
   \<and> extractTimestamp (fixture (Parsed one_summary)) before_cutoff
       = Some (Date (Some (now (fixture (Parsed one_summary)) - 60 * 60 * 1000 - 1)))
   \<and> before_cutoff \<notin> set [at_cutoff]"
proof -
  let ?rt = "fixture (Parsed one_summary)"
  let ?r = "\<lparr>summaryPrefix = one_summary_prefix, recentMessages = [at_cutoff],
            wasSummarized = True, summaryCount = JNum (Finite 1)\<rparr>"
  have run: "loadCompactedContext ?rt (js_str ''s'') [at_cutoff, before_cutoff] = Inr ?r"
    by (simp add: eval_defs fixture_defs)
  have was: "wasSummarized ?r" by simp
  have t1: "extractTimestamp ?rt at_cutoff = Some (Date (Some 1700000000000))"
    by (simp add: eval_defs fixture_defs)
  have t2: "extractTimestamp ?rt before_cutoff = Some (Date (Some 1699999999999))"
    by (simp add: eval_defs fixture_defs)
  have clock: "\<bar>now ?rt - 60 * 60 * 1000\<bar> \<le> 8640000000000000"
    by (simp add: fixture_def)
  have n: "now ?rt = 1700003600000" by (simp add: fixture_def)
  have "at_cutoff \<in> set (recentMessages ?r)"
    using recent_iff_at_or_after_cutoff [OF run was _ t1 clock] by (simp add: n)
  moreover have "before_cutoff \<notin> set (recentMessages ?r)"
    using recent_iff_at_or_after_cutoff [OF run was _ t2 clock] by (simp add: n)
  ultimately show ?thesis using run t1 t2 by (simp add: n)
qed

text \<open>
  Towards claim C6: the chain of \<^verbatim>\<open>??\<close> selects the first candidate that is present, and
  only the selected value is coerced.
\<close>

lemma coerce_valid:
  "(case f of
      DateObj d \<Rightarrow> Some d
    | Data (JStr s) \<Rightarrow>
        (if getTime (Date (Date_parse rt s)) \<noteq> None then Some (Date (Date_parse rt s))
         else None)
    | Data (JNum n) \<Rightarrow>
        (if getTime (Date (TimeClip n)) \<noteq> None then Some (Date (TimeClip n)) else None)
    | Data _ \<Rightarrow> None) = Some (Date (Some t))
   \<longleftrightarrow> time_of rt f = Some t"
proof (cases f)
  case (Data v)
  then show ?thesis by (cases v) auto
next
  case (DateObj d)
  then show ?thesis by (cases d) auto
qed

lemma first_present_candidates:
  "time_of rt (first_present msg candidates) =
   time_of rt (field_coalesce
                 (field_coalesce (msg_get msg (js_str ''timestamp'')) (msg_get msg (js_str ''ts'')))
                 (msg_get msg (js_str ''createdAt'')))"
proof -
  have "field_nullish f \<Longrightarrow> time_of rt f = None" for f
    by (cases f; cases "case f of Data v \<Rightarrow> v") auto
  then show ?thesis
    by (auto simp: candidates_def field_coalesce_def)
qed

text \<open>
  Claim C6, as the code has it. Of the candidates \<^verbatim>\<open>timestamp\<close>, \<^verbatim>\<open>ts\<close>, \<^verbatim>\<open>createdAt\<close>, in
  this order, the first whose value is neither \<^verbatim>\<open>null\<close> nor \<^verbatim>\<open>undefined\<close> is selected, and
  a valid point in time \<open>t\<close> is extracted if and only if the selected value is coerced to
  \<open>t\<close>. Later candidates are consulted only when the earlier ones are absent or \<^verbatim>\<open>null\<close>.
\<close>

theorem extractTimestamp_first_present:
  "extractTimestamp rt msg = Some (Date (Some t))
   \<longleftrightarrow> time_of rt (first_present msg candidates) = Some t"
  unfolding first_present_candidates extractTimestamp_def Let_def
  by (rule coerce_valid)

text \<open>With \<^verbatim>\<open>timestamp\<close> \<^verbatim>\<open>null\<close> and no \<^verbatim>\<open>ts\<close>, the string in \<^verbatim>\<open>createdAt\<close> is parsed.\<close>

theorem extractTimestamp_first_present_witness:
  "time_of (fixture Missing)
     (first_present [(js_str ''timestamp'', Data JNull),
                     (js_str ''createdAt'', Data (JStr (js_str ''2023-11-14T22:13:20.000Z'')))]
        candidates) = Some 1700000000000
   \<and> extractTimestamp (fixture Missing)
       [(js_str ''timestamp'', Data JNull),
        (js_str ''createdAt'', Data (JStr (js_str ''2023-11-14T22:13:20.000Z'')))]
     = Some (Date (Some 1700000000000))"
proof -
  have "time_of (fixture Missing)
     (first_present [(js_str ''timestamp'', Data JNull),
                     (js_str ''createdAt'', Data (JStr (js_str ''2023-11-14T22:13:20.000Z'')))]
        candidates) = Some 1700000000000"
    by (simp add: candidates_def msg_get_def fixture_def js_str_def)
  with extractTimestamp_first_present [THEN iffD2, OF this] show ?thesis by simp
qed

text \<open>
  Claim C6, as stated, fails: here \<^verbatim>\<open>timestamp\<close> is present and is not a valid point in
  time (\<^verbatim>\<open>NaN\<close>), \<^verbatim>\<open>ts\<close> is a valid one, and nothing is extracted.
\<close>

theorem later_candidate_not_consulted:
  "time_of (fixture Missing) (msg_get [(js_str ''timestamp'', Data (JNum NaN)),
        (js_str ''ts'', Data (JNum (Finite 1700000000000)))] (js_str ''timestamp'')) = None
   \<and> time_of (fixture Missing) (msg_get [(js_str ''timestamp'', Data (JNum NaN)),
        (js_str ''ts'', Data (JNum (Finite 1700000000000)))] (js_str ''ts'')) = Some 1700000000000
   \<and> extractTimestamp (fixture Missing)
       [(js_str ''timestamp'', Data (JNum NaN)),
        (js_str ''ts'', Data (JNum (Finite 1700000000000)))] = None"
  by (simp add: eval_defs fixture_defs)

section \<open>The summary prefix\<close>

lemma header_nonempty: "header \<noteq> []"
  by (simp add: header_def)

lemma format_array:
  "formatSummariesAsContext rt (JArr xs) =
     (if xs = [] then Inr []
      else case map_bullet_line rt (drop (length xs - 6) xs) of
             Inl e \<Rightarrow> Inl e
           | Inr ls \<Rightarrow> Inr (header @ join_lines ls @ footer))"
  by (simp add: formatSummariesAsContext_def)

text \<open>
  When the formatter returns on a value whose length is not zero, the value is an array
  and the result starts with the header.
\<close>

lemma format_returns:
  assumes "formatSummariesAsContext rt v = Inr pre"
    and "get_prop v (js_str ''length'') = Inr len" and "len \<noteq> JNum (Finite 0)"
  shows "\<exists>xs. v = JArr xs \<and> len = JNum (Finite (of_nat (length xs))) \<and> pre \<noteq> []"
proof (cases v)
  case (JArr xs)
  with assms show ?thesis
    by (auto simp: format_array header_nonempty split: if_splits sum.splits)
qed (use assms in \<open>auto simp: formatSummariesAsContext_def split: if_splits sum.splits\<close>)

lemma bullet_line_shaped: "is_StoredSummary x \<Longrightarrow> bullet_line rt x = Inr (summary_line x)"
  by (cases x) (auto simp: bullet_line_def has_string_def split: option.splits jsval.splits)

lemma map_bullet_line_shaped:
  "list_all is_StoredSummary xs \<Longrightarrow> map_bullet_line rt xs = Inr (map summary_line xs)"
  by (induction xs) (simp_all add: bullet_line_shaped)

lemma list_all_drop: "list_all P xs \<Longrightarrow> list_all P (drop n xs)"
  by (auto simp: list_all_iff dest: in_set_dropD)

text \<open>
  On \<open>n\<close> well-shaped summaries the formatter returns the empty string when \<open>n = 0\<close>, and
  otherwise the header, the lines of the last \<open>min n 6\<close> summaries in their stored order,
  joined by line feeds, and the footer.
\<close>

lemma format_cap:
  assumes "list_all is_StoredSummary xs"
  shows "formatSummariesAsContext rt (JArr xs) =
           Inr (if xs = [] then []
                else header @ join_lines (map summary_line (drop (length xs - 6) xs)) @ footer)"
    and "length (drop (length xs - 6) xs) = min (length xs) 6"
  using assms by (auto simp: format_array map_bullet_line_shaped list_all_drop)

text \<open>
  Claim C4 at an input where the code departs from it: the line of a summary starts with
  the three code units U+00E2, U+20AC, U+00A2 that the source file has in its template
  literal (the UTF-8 bytes of the bullet read as Windows-1252), not with the bullet
  U+2022.
\<close>

theorem bullet_is_mojibake:
  "formatSummariesAsContext (fixture Missing) (JArr [summary ''21:00-22:00'' ''talk'']) =
     Inr (header @ [0xE2, 0x20AC, 0xA2] @ js_str '' 21:00-22:00: talk'' @ footer)
   \<and> formatSummariesAsContext (fixture Missing) (JArr [summary ''21:00-22:00'' ''talk'']) \<noteq>
     Inr (header @ [0x2022] @ js_str '' 21:00-22:00: talk'' @ footer)"
  by (simp add: eval_defs fixture_defs)

section \<open>The store and the assembled context\<close>

text \<open>A store of the declared shape never makes the assembler throw.\<close>

lemma well_shaped_store_returns:
  assumes "is_SummaryFile (loadStoredSummaries rt sessionId)"
  shows "\<exists>r. loadCompactedContext rt sessionId allMessages = Inr r"
proof (cases "loadStoredSummaries rt sessionId")
  case (JObj ps)
  with assms obtain xs where xs: "map_of ps (js_str ''summaries'') = Some (JArr xs)"
    and shaped: "list_all is_StoredSummary xs"
    by (auto split: option.splits jsval.splits)
  from format_cap(1) [OF shaped] JObj xs show ?thesis
    by (simp add: loadCompactedContext_def Let_def)
qed (use assms in simp_all)

text \<open>
  Claim C1. When the summary store is absent (\<^verbatim>\<open>loadStoredSummaries\<close> returns \<^verbatim>\<open>null\<close>) or
  its \<^verbatim>\<open>summaries\<close> is the empty array, \<^verbatim>\<open>loadCompactedContext\<close> returns the empty prefix,
  the whole input sequence unfiltered, \<^verbatim>\<open>wasSummarized = false\<close> and \<^verbatim>\<open>summaryCount = 0\<close>.
\<close>

theorem no_summaries_returns_input:
  assumes "loadStoredSummaries rt sessionId = JNull
           \<or> get_prop (loadStoredSummaries rt sessionId) (js_str ''summaries'') = Inr (JArr [])"
  shows "loadCompactedContext rt sessionId allMessages =
           Inr \<lparr>summaryPrefix = [], recentMessages = allMessages, wasSummarized = False,
                summaryCount = JNum (Finite 0)\<rparr>"
  using assms
  by (auto simp: loadCompactedContext_def no_summaries_def Let_def)

text \<open>
  Both cases, a missing file and a file with no summaries: the message older than the
  window is returned with the other.
\<close>

theorem no_summaries_returns_input_witness:
  "loadStoredSummaries (fixture Missing) (js_str ''s'') = JNull
   \<and> loadCompactedContext (fixture Missing) (js_str ''s'') [before_cutoff, at_cutoff] =
       Inr \<lparr>summaryPrefix = [], recentMessages = [before_cutoff, at_cutoff],
            wasSummarized = False, summaryCount = JNum (Finite 0)\<rparr>
   \<and> get_prop (loadStoredSummaries (fixture (Parsed (summary_file []))) (js_str ''s''))
        (js_str ''summaries'') = Inr (JArr [])
   \<and> loadCompactedContext (fixture (Parsed (summary_file []))) (js_str ''s'')
        [before_cutoff, at_cutoff] =
       Inr \<lparr>summaryPrefix = [], recentMessages = [before_cutoff, at_cutoff],
            wasSummarized = False, summaryCount = JNum (Finite 0)\<rparr>"
proof -
  have a: "loadStoredSummaries (fixture Missing) (js_str ''s'') = JNull"
    by (simp add: loadStoredSummaries_def fixture_def summaryName_def js_str_def)
  have b: "get_prop (loadStoredSummaries (fixture (Parsed (summary_file []))) (js_str ''s''))
        (js_str ''summaries'') = Inr (JArr [])"
    by (simp add: loadStoredSummaries_def fixture_def summaryName_def summary_file_def js_str_def)
  from no_summaries_returns_input [OF disjI1, OF a, of "[before_cutoff, at_cutoff]"]
    no_summaries_returns_input [OF disjI2, OF b, of "[before_cutoff, at_cutoff]"] a b
  show ?thesis by simp
qed

text \<open>
  Claim C2, as the code has it. \<^verbatim>\<open>loadStoredSummaries\<close> returns \<^verbatim>\<open>null\<close> whenever the file
  does not exist, cannot be read, or is not valid JSON, and \<^verbatim>\<open>loadCompactedContext\<close> then
  returns the no-summary result without throwing. A file that holds valid JSON is returned
  as parsed: its shape is not checked.
\<close>

theorem absent_when_unparsed:
  "(SESSIONS_DIR rt (summaryName sessionId) = Missing
    \<or> SESSIONS_DIR rt (summaryName sessionId) = Unreadable
    \<or> SESSIONS_DIR rt (summaryName sessionId) = Malformed
    \<longrightarrow> loadStoredSummaries rt sessionId = JNull
        \<and> loadCompactedContext rt sessionId allMessages =
            Inr \<lparr>summaryPrefix = [], recentMessages = allMessages, wasSummarized = False,
                 summaryCount = JNum (Finite 0)\<rparr>)
   \<and> (SESSIONS_DIR rt (summaryName sessionId) = Parsed v
      \<longrightarrow> loadStoredSummaries rt sessionId = v)"
  by (auto simp: loadStoredSummaries_def loadCompactedContext_def no_summaries_def Let_def)

text \<open>A file cut short in the middle of a write, and a complete one.\<close>

theorem absent_when_unparsed_witness:
  "SESSIONS_DIR (fixture Malformed) (summaryName (js_str ''s'')) = Malformed
   \<and> loadStoredSummaries (fixture Malformed) (js_str ''s'') = JNull
   \<and> loadCompactedContext (fixture Malformed) (js_str ''s'') [before_cutoff] =
       Inr \<lparr>summaryPrefix = [], recentMessages = [before_cutoff], wasSummarized = False,
            summaryCount = JNum (Finite 0)\<rparr>
   \<and> SESSIONS_DIR (fixture (Parsed one_summary)) (summaryName (js_str ''s'')) = Parsed one_summary
   \<and> loadStoredSummaries (fixture (Parsed one_summary)) (js_str ''s'') = one_summary"
proof -
  have m: "SESSIONS_DIR (fixture Malformed) (summaryName (js_str ''s'')) = Malformed"
    by (simp add: fixture_def summaryName_def js_str_def)
  have p: "SESSIONS_DIR (fixture (Parsed one_summary)) (summaryName (js_str ''s''))
             = Parsed one_summary"
    by (simp add: fixture_def summaryName_def js_str_def)
  from absent_when_unparsed [of "fixture Malformed" "js_str ''s''" "[before_cutoff]"]
    absent_when_unparsed [of "fixture (Parsed one_summary)" "js_str ''s''" "[]" one_summary]
    m p
  show ?thesis by simp
qed

text \<open>
  Claim C2, as stated, fails on a file that holds valid JSON of another shape. The file
  \<^verbatim>\<open>{}\<close> is no \<^verbatim>\<open>SummaryFile\<close>; \<^verbatim>\<open>loadStoredSummaries\<close> returns the empty object, not
  \<^verbatim>\<open>null\<close>, and \<^verbatim>\<open>loadCompactedContext\<close> throws on \<^verbatim>\<open>summaryFile.summaries.length\<close>.
\<close>

theorem shape_is_not_checked:
  "\<not> is_SummaryFile (JObj [])
   \<and> loadStoredSummaries (fixture (Parsed (JObj []))) (js_str ''s'') = JObj []
   \<and> loadCompactedContext (fixture (Parsed (JObj []))) (js_str ''s'') [] = Inl TypeError"
  by (simp add: eval_defs fixture_defs)

text \<open>
  Claim C9. Whenever \<^verbatim>\<open>loadCompactedContext\<close> returns, \<^verbatim>\<open>wasSummarized\<close> is true if and
  only if \<^verbatim>\<open>summaryPrefix\<close> is not empty, and when it is true \<^verbatim>\<open>summaryCount\<close> is the number
  of all stored summaries, before the cap of the formatter.
\<close>

theorem summarized_iff_prefix:
  assumes "loadCompactedContext rt sessionId allMessages = Inr r"
  shows "(wasSummarized r \<longleftrightarrow> summaryPrefix r \<noteq> [])
         \<and> (wasSummarized r \<longrightarrow>
              (\<exists>xs. get_prop (loadStoredSummaries rt sessionId) (js_str ''summaries'') = Inr (JArr xs)
                    \<and> summaryCount r = JNum (Finite (of_nat (length xs)))))"
proof (cases "truthy (loadStoredSummaries rt sessionId)")
  case False
  with assms show ?thesis
    by (auto simp: loadCompactedContext_def no_summaries_def Let_def)
next
  case True
  show ?thesis
  proof (cases "get_prop (loadStoredSummaries rt sessionId) (js_str ''summaries'')")
    case (Inl e)
    with True assms show ?thesis by (simp add: loadCompactedContext_def Let_def)
  next
    case summ: (Inr summaries)
    show ?thesis
    proof (cases "get_prop summaries (js_str ''length'')")
      case (Inl e)
      with True summ assms show ?thesis by (simp add: loadCompactedContext_def Let_def)
    next
      case len: (Inr len)
      show ?thesis
      proof (cases "len = JNum (Finite 0)")
        case True
        with \<open>truthy _\<close> summ len assms show ?thesis
          by (auto simp: loadCompactedContext_def no_summaries_def Let_def)
      next
        case False
        show ?thesis
        proof (cases "formatSummariesAsContext rt summaries")
          case (Inl e)
          with True summ len False assms show ?thesis
            by (simp add: loadCompactedContext_def Let_def)
        next
          case (Inr pre)
          from format_returns [OF Inr len False] obtain xs
            where "summaries = JArr xs" "len = JNum (Finite (of_nat (length xs)))" "pre \<noteq> []"
            by blast
          with True summ len False Inr assms show ?thesis
            by (auto simp: loadCompactedContext_def Let_def)
        qed
      qed
    qed
  qed
qed

text \<open>Seven stored summaries: the prefix has the last six, the count is seven.\<close>

theorem summarized_iff_prefix_witness:
  "loadCompactedContext (fixture (Parsed (summary_file seven_summaries))) (js_str ''s'') [at_cutoff]
     = Inr \<lparr>summaryPrefix = header @ join_lines (map summary_line (drop 1 seven_summaries)) @ footer,
            recentMessages = [at_cutoff], wasSummarized = True, summaryCount = JNum (Finite 7)\<rparr>
   \<and> header @ join_lines (map summary_line (drop 1 seven_summaries)) @ footer \<noteq> []
   \<and> get_prop (loadStoredSummaries (fixture (Parsed (summary_file seven_summaries))) (js_str ''s''))
        (js_str ''summaries'') = Inr (JArr seven_summaries)
   \<and> length seven_summaries = 7"
proof -
  let ?rt = "fixture (Parsed (summary_file seven_summaries))"
  let ?r = "\<lparr>summaryPrefix = header @ join_lines (map summary_line (drop 1 seven_summaries)) @ footer,
            recentMessages = [at_cutoff], wasSummarized = True, summaryCount = JNum (Finite 7)\<rparr>"
  have run: "loadCompactedContext ?rt (js_str ''s'') [at_cutoff] = Inr ?r"
    by (simp add: eval_defs fixture_defs)
  have stored: "get_prop (loadStoredSummaries ?rt (js_str ''s'')) (js_str ''summaries'')
                  = Inr (JArr seven_summaries)"
    by (simp add: loadStoredSummaries_def fixture_def summaryName_def summary_file_def js_str_def)
  from summarized_iff_prefix [OF run] stored
  have "summaryPrefix ?r \<noteq> []" and "JNum (Finite 7) = JNum (Finite (of_nat (length seven_summaries)))"
    by auto
  with run stored show ?thesis by simp
qed

end
